theory Spec2Isabelle
  imports Main "HOL-Library.Sublist"
begin

section \<open>The publishing script \<open>scripts/publish.py\<close>\<close>

text \<open>
  The script is sequential orchestration: it reads the working directory, imports two
  modules, reads lines from standard input, removes directories and runs subprocesses.
  The model threads a \<open>world\<close> (working directory, pending input lines, trace of what the
  program did) through every function; what the operating system answers (which modules
  import, what a subprocess does) is the parameter \<open>env\<close>.

  Conventions of the model:
  \<^item> a \<open>char\<close> stands for the code point of the same number, so a Python \<open>str\<close> of code
    points below 256 is a \<open>string\<close>; the pictographs that open the script's messages lie
    outside that range and are left out of the message texts;
  \<^item> the working directory holds regular files and directories only (no symbolic links,
    no permissions), and every path the script hands to \<open>os\<close>, \<open>glob\<close> and \<open>shutil\<close> is a
    name inside the working directory;
  \<^item> an exception is a value: a function that can raise returns \<open>exn + 'a\<close>, \<open>Inl\<close> the
    exception; nothing in the script catches anything but \<open>ImportError\<close>.
\<close>

subsection \<open>Data\<close>

datatype node = File | Dir "(string \<times> node) list"

type_synonym directory = "(string \<times> node) list"

datatype exn =
    EOFError
  | FileNotFoundError string
  | NotADirectoryError string
  | OSError string

text \<open>\<open>subprocess.CompletedProcess\<close>, with the fields the script reads.\<close>

record completed =
  returncode :: int
  stdout :: string
  stderr :: string

text \<open>The five operations \<open>main\<close> dispatches to.\<close>

datatype operation = Clean | Build | Check | UploadTest | UploadProd

text \<open>
  The trace. \<open>Print\<close>, \<open>Input\<close> (the prompt and the line read, \<open>None\<close> at end of input),
  \<open>Import\<close>, \<open>Rmtree\<close> and \<open>Spawn\<close> are the calls of \<open>print\<close>, \<open>input\<close>, \<open>__import__\<close>,
  \<open>shutil.rmtree\<close> and \<open>subprocess.run\<close>, each recorded when it is made. \<open>Call\<close> records
  the entry into one of the five operations and \<open>Ret\<close> the boolean a command-running
  operation returns.
\<close>

datatype event =
    Print string
  | Input string "string option"
  | Import string
  | Rmtree string
  | Spawn "string list" "string option"
  | Call operation
  | Ret operation bool

record world =
  fs :: directory
  stdin :: "string list"
  trace :: "event list"

record env =
  sys_executable :: string
  importable :: "string \<Rightarrow> bool"
  launch :: "string list \<Rightarrow> string option \<Rightarrow> directory \<Rightarrow> (exn + completed) \<times> directory"

datatype outcome = Returned | SysExit int | Uncaught exn

text \<open>
  The exit status of the process: 0 when \<open>main\<close> returns, the argument of \<open>sys.exit\<close>,
  and 1 when the interpreter ends on an uncaught exception.
\<close>

fun exit_code :: "outcome \<Rightarrow> int" where
  "exit_code Returned = 0"
| "exit_code (SysExit n) = n"
| "exit_code (Uncaught x) = 1"

subsection \<open>Primitives\<close>

definition log :: "event \<Rightarrow> world \<Rightarrow> world" where
  "log ev w = w\<lparr>trace := trace w @ [ev]\<rparr>"

definition print :: "string \<Rightarrow> world \<Rightarrow> world" where
  "print s w = log (Print s) w"

text \<open>\<open>input(prompt)\<close>: the next line of standard input, \<open>EOFError\<close> when there is none.\<close>

definition input :: "string \<Rightarrow> world \<Rightarrow> (exn + string) \<times> world" where
  "input prompt w =
     (case stdin w of
        [] \<Rightarrow> (Inl EOFError, log (Input prompt None) w)
      | l # ls \<Rightarrow> (Inr l, (log (Input prompt (Some l)) w)\<lparr>stdin := ls\<rparr>))"

text \<open>
  \<open>str.strip()\<close> and \<open>str.lower()\<close> on code points below 256: the white space of
  \<open>str.isspace\<close> there is U+0009 to U+000D, U+001C to U+0020, U+0085 and U+00A0; the
  letters with a lower-case form are A to Z and U+00C0 to U+00DE without U+00D7.
\<close>

definition is_space :: "char \<Rightarrow> bool" where
  "is_space c =
     (let n = (of_char c :: nat)
      in (9 \<le> n \<and> n \<le> 13) \<or> (28 \<le> n \<and> n \<le> 32) \<or> n = 133 \<or> n = 160)"

definition strip :: "string \<Rightarrow> string" where
  "strip s = rev (dropWhile is_space (rev (dropWhile is_space s)))"

definition lower_char :: "char \<Rightarrow> char" where
  "lower_char c =
     (let n = (of_char c :: nat)
      in if (65 \<le> n \<and> n \<le> 90) \<or> (192 \<le> n \<and> n \<le> 222 \<and> n \<noteq> 215)
         then char_of (n + 32) else c)"

definition lower :: "string \<Rightarrow> string" where
  "lower s = map lower_char s"

text \<open>\<open>sep.join(xs)\<close>.\<close>

fun join :: "string \<Rightarrow> string list \<Rightarrow> string" where
  "join sep [] = []"
| "join sep [x] = x"
| "join sep (x # y # ys) = x @ sep @ join sep (y # ys)"

subsection \<open>The working directory\<close>

definition path_exists :: "directory \<Rightarrow> string \<Rightarrow> bool" where
  "path_exists d p = (map_of d p \<noteq> None)"

definition isdir :: "directory \<Rightarrow> string \<Rightarrow> bool" where
  "isdir d p = (case map_of d p of Some (Dir sub) \<Rightarrow> True | _ \<Rightarrow> False)"

fun remove_entry :: "string \<Rightarrow> directory \<Rightarrow> directory" where
  "remove_entry p [] = []"
| "remove_entry p ((n, x) # d) = (if n = p then remove_entry p d else (n, x) # remove_entry p d)"

text \<open>
  \<open>shutil.rmtree(path)\<close> with its default \<open>ignore_errors=False\<close>: a directory goes with
  everything below it; a missing path and a regular file raise.
\<close>

definition rmtree :: "string \<Rightarrow> world \<Rightarrow> (exn + unit) \<times> world" where
  "rmtree p w =
     (let w = log (Rmtree p) w
      in case map_of (fs w) p of
           None \<Rightarrow> (Inl (FileNotFoundError p), w)
         | Some File \<Rightarrow> (Inl (NotADirectoryError p), w)
         | Some (Dir sub) \<Rightarrow> (Inr (), w\<lparr>fs := remove_entry p (fs w)\<rparr>))"

text \<open>
  \<open>fnmatch\<close> (case-sensitive, as on POSIX) for patterns made of literal characters and
  \<open>*\<close>, which are the patterns the script has; the first argument is the name.
\<close>

fun fnmatch :: "string \<Rightarrow> string \<Rightarrow> bool" where
  "fnmatch [] [] = True"
| "fnmatch (c # cs) [] = False"
| "fnmatch [] (p # ps) = (p = CHR ''*'' \<and> fnmatch [] ps)"
| "fnmatch (c # cs) (p # ps) =
     (if p = CHR ''*'' then fnmatch (c # cs) ps \<or> fnmatch cs (p # ps)
      else p = c \<and> fnmatch cs ps)"

definition is_hidden :: "string \<Rightarrow> bool" where
  "is_hidden s = (case s of [] \<Rightarrow> False | c # cs \<Rightarrow> c = CHR ''.'')"

text \<open>
  \<open>glob.glob(pattern)\<close> for a pattern without a directory part: the names of the working
  directory that match, in listing order; a name that starts with a dot is left out
  unless the pattern starts with one.
\<close>

definition glob_match :: "string \<Rightarrow> string \<Rightarrow> bool" where
  "glob_match n pattern = ((is_hidden pattern \<or> \<not> is_hidden n) \<and> fnmatch n pattern)"

definition glob :: "directory \<Rightarrow> string \<Rightarrow> string list" where
  "glob d pattern = filter (\<lambda>n. glob_match n pattern) (map fst d)"

subsection \<open>\<open>run_command\<close>\<close>

text \<open>
  \<open>subprocess.run(cmd, cwd=cwd, capture_output=True, text=True)\<close>: either the child
  cannot be started and the call raises, or it runs (it may change the working
  directory's contents) and the call returns its completed process.
\<close>

definition subprocess_run ::
  "env \<Rightarrow> string list \<Rightarrow> string option \<Rightarrow> world \<Rightarrow> (exn + completed) \<times> world" where
  "subprocess_run e cmd cwd w =
     (let w = log (Spawn cmd cwd) w
      in case launch e cmd cwd (fs w) of (r, d) \<Rightarrow> (r, w\<lparr>fs := d\<rparr>))"

definition run_command ::
  "env \<Rightarrow> string list \<Rightarrow> string option \<Rightarrow> world \<Rightarrow> (exn + bool) \<times> world" where
  "run_command e cmd cwd w =
     (let w = print (''Running: '' @ join '' '' cmd) w
      in case subprocess_run e cmd cwd w of
           (Inl x, w) \<Rightarrow> (Inl x, w)
         | (Inr result, w) \<Rightarrow>
             if returncode result \<noteq> 0 then
               (let w = print (''Command failed: '' @ join '' '' cmd) w;
                    w = print (''Error: '' @ stderr result) w
                in (Inr False, w))
             else if stdout result \<noteq> [] then (Inr True, print (stdout result) w)
             else (Inr True, w))"

subsection \<open>\<open>check_requirements\<close>\<close>

text \<open>
  The loop over \<open>required_packages\<close>: \<open>__import__(package)\<close> either succeeds or raises
  \<open>ImportError\<close>, which the loop catches, and then returns \<open>False\<close> at once.
\<close>

fun check_packages :: "env \<Rightarrow> string list \<Rightarrow> world \<Rightarrow> bool \<times> world" where
  "check_packages e [] w = (True, w)"
| "check_packages e (package # packages) w =
     (let w = log (Import package) w
      in if importable e package then
           check_packages e packages (print (package @ '' is installed'') w)
         else
           (let w = print (package @ '' is not installed'') w;
                w = print (''Install with: pip install '' @ package) w
            in (False, w)))"

definition required_packages :: "string list" where
  "required_packages = [''build'', ''twine'']"

definition check_requirements :: "env \<Rightarrow> world \<Rightarrow> bool \<times> world" where
  "check_requirements e w =
     check_packages e required_packages (print ''Checking requirements...'' w)"

subsection \<open>\<open>clean_build\<close>\<close>

text \<open>The inner loop, over the paths \<open>glob.glob\<close> returned.\<close>

fun clean_matches :: "string list \<Rightarrow> world \<Rightarrow> (exn + unit) \<times> world" where
  "clean_matches [] w = (Inr (), w)"
| "clean_matches (path # paths) w =
     (if isdir (fs w) path then
        (case rmtree path w of
           (Inl x, w') \<Rightarrow> (Inl x, w')
         | (Inr u, w') \<Rightarrow> clean_matches paths (print (''Removed '' @ path) w'))
      else clean_matches paths w)"

text \<open>The outer loop, over \<open>dirs_to_clean\<close>.\<close>

fun clean_patterns :: "string list \<Rightarrow> world \<Rightarrow> (exn + unit) \<times> world" where
  "clean_patterns [] w = (Inr (), w)"
| "clean_patterns (pattern # patterns) w =
     (if CHR ''*'' \<in> set pattern then
        (case clean_matches (glob (fs w) pattern) w of
           (Inl x, w') \<Rightarrow> (Inl x, w')
         | (Inr u, w') \<Rightarrow> clean_patterns patterns w')
      else if path_exists (fs w) pattern then
        (case rmtree pattern w of
           (Inl x, w') \<Rightarrow> (Inl x, w')
         | (Inr u, w') \<Rightarrow> clean_patterns patterns (print (''Removed '' @ pattern) w'))
      else clean_patterns patterns w)"

definition dirs_to_clean :: "string list" where
  "dirs_to_clean = [''build'', ''dist'', ''*.egg-info'']"

definition clean_build :: "world \<Rightarrow> (exn + unit) \<times> world" where
  "clean_build w =
     clean_patterns dirs_to_clean (print ''Cleaning build artifacts...'' (log (Call Clean) w))"

subsection \<open>The command-running operations\<close>

definition build_cmd :: "env \<Rightarrow> string list" where
  "build_cmd e = [sys_executable e, ''-m'', ''build'']"

definition check_cmd :: "env \<Rightarrow> string list" where
  "check_cmd e = [sys_executable e, ''-m'', ''twine'', ''check'', ''dist/*'']"

definition upload_test_cmd :: "env \<Rightarrow> string list" where
  "upload_test_cmd e =
     [sys_executable e, ''-m'', ''twine'', ''upload'', ''--repository'', ''testpypi'', ''dist/*'']"

definition upload_cmd :: "env \<Rightarrow> string list" where
  "upload_cmd e = [sys_executable e, ''-m'', ''twine'', ''upload'', ''dist/*'']"

text \<open>
  Each of the four prints its banner and returns what \<open>run_command\<close> returns; \<open>operate\<close>
  is that common shape, with the entry and the returned boolean recorded in the trace.
\<close>

definition operate ::
  "operation \<Rightarrow> string \<Rightarrow> env \<Rightarrow> string list \<Rightarrow> world \<Rightarrow> (exn + bool) \<times> world" where
  "operate opn banner e cmd w =
     (let w = log (Call opn) w;
          w = print banner w
      in case run_command e cmd None w of
           (Inl x, w) \<Rightarrow> (Inl x, w)
         | (Inr ok, w) \<Rightarrow> (Inr ok, log (Ret opn ok) w))"

definition build_package :: "env \<Rightarrow> world \<Rightarrow> (exn + bool) \<times> world" where
  "build_package e w = operate Build ''Building package...'' e (build_cmd e) w"

definition check_package :: "env \<Rightarrow> world \<Rightarrow> (exn + bool) \<times> world" where
  "check_package e w = operate Check ''Checking package...'' e (check_cmd e) w"

definition upload_to_test_pypi :: "env \<Rightarrow> world \<Rightarrow> (exn + bool) \<times> world" where
  "upload_to_test_pypi e w =
     operate UploadTest ''Uploading to Test PyPI...'' e (upload_test_cmd e) w"

definition upload_to_pypi :: "env \<Rightarrow> world \<Rightarrow> (exn + bool) \<times> world" where
  "upload_to_pypi e w = operate UploadProd ''Uploading to PyPI...'' e (upload_cmd e) w"

subsection \<open>\<open>main\<close>\<close>

definition menu_prompt :: string where
  "menu_prompt = CHR 0x0A # ''Enter your choice (1-4): ''"

definition confirm_prompt :: string where
  "confirm_prompt = ''Are you sure? This cannot be undone (y/N): ''"

definition main :: "env \<Rightarrow> world \<Rightarrow> outcome \<times> world" where
  "main e w =
    (let w = print ''PyFrame Publishing Script'' w;
         w = print (replicate 40 CHR ''='') w
     in
     if \<not> path_exists (fs w) ''pyproject.toml'' then
       (SysExit 1,
        print ''Error: pyproject.toml not found. Run this script from the project root.'' w)
     else
     (case check_requirements e w of (ok, w) \<Rightarrow>
     if \<not> ok then
       (SysExit 1, print (CHR 0x0A # ''Please install required packages and try again.'') w)
     else
     (let w = print (CHR 0x0A # ''What would you like to do?'') w;
          w = print ''1. Build package only'' w;
          w = print ''2. Build and upload to Test PyPI'' w;
          w = print ''3. Build and upload to PyPI (production)'' w;
          w = print ''4. Clean build artifacts'' w
      in
     (case input menu_prompt w of
        (Inl x, w) \<Rightarrow> (Uncaught x, w)
      | (Inr line, w) \<Rightarrow>
     (let choice = strip line
      in
     if choice = ''4'' then
       (case clean_build w of
          (Inl x, w) \<Rightarrow> (Uncaught x, w)
        | (Inr u, w) \<Rightarrow> (Returned, print ''Build artifacts cleaned!'' w))
     else
     if choice \<notin> set [''1'', ''2'', ''3''] then
       (SysExit 1, print ''Invalid choice. Exiting.'' w)
     else
     (case clean_build w of
        (Inl x, w) \<Rightarrow> (Uncaught x, w)
      | (Inr u, w) \<Rightarrow>
     (case build_package e w of
        (Inl x, w) \<Rightarrow> (Uncaught x, w)
      | (Inr built, w) \<Rightarrow>
     if \<not> built then (SysExit 1, print ''Build failed!'' w)
     else
     (case check_package e w of
        (Inl x, w) \<Rightarrow> (Uncaught x, w)
      | (Inr checked, w) \<Rightarrow>
     if \<not> checked then (SysExit 1, print ''Package check failed!'' w)
     else
     (let w = print ''Package built and checked successfully!'' w
      in
     if choice = ''1'' then
       (Returned, print ''Package is ready in the 'dist' directory.'' w)
     else
     if choice = ''2'' then
       (case upload_to_test_pypi e w of
          (Inl x, w) \<Rightarrow> (Uncaught x, w)
        | (Inr uploaded, w) \<Rightarrow>
            if uploaded then
              (let w = print ''Successfully uploaded to Test PyPI!'' w;
                   w = print ''Check your package at: https://test.pypi.org/project/pyframe/'' w;
                   w = print
                     ''Test install with: pip install -i https://test.pypi.org/simple/ pyframe'' w
               in (Returned, w))
            else (SysExit 1, print ''Upload to Test PyPI failed!'' w))
     else
     if choice = ''3'' then
       (let w = print ''You are about to upload to PyPI (production)!'' w
        in
       (case input confirm_prompt w of
          (Inl x, w) \<Rightarrow> (Uncaught x, w)
        | (Inr answer, w) \<Rightarrow>
       (let confirm = lower (strip answer)
        in
       if confirm \<noteq> ''y'' then (SysExit 1, print ''Upload cancelled.'' w)
       else
       (case upload_to_pypi e w of
          (Inl x, w) \<Rightarrow> (Uncaught x, w)
        | (Inr uploaded, w) \<Rightarrow>
            if uploaded then
              (let w = print ''Successfully uploaded to PyPI!'' w;
                   w = print ''Check your package at: https://pypi.org/project/pyframe/'' w;
                   w = print ''Users can now install with: pip install pyframe'' w
               in (Returned, w))
            else (SysExit 1, print ''Upload to PyPI failed!'' w)))))
     else (Returned, w))))))))))"

text \<open>A run of the script: \<open>main\<close> from a working directory and the lines the user will type.\<close>

definition initial :: "directory \<Rightarrow> string list \<Rightarrow> world" where
  "initial d ls = \<lparr>fs = d, stdin = ls, trace = []\<rparr>"

definition run :: "env \<Rightarrow> directory \<Rightarrow> string list \<Rightarrow> outcome \<times> world" where
  "run e d ls = main e (initial d ls)"


subsection \<open>Auxiliary notions for the proofs\<close>

text \<open>
  A working directory in which \<open>clean_patterns\<close> finds nothing to remove: no literal
  pattern exists and no match of a wildcard pattern is a directory.
\<close>

definition settled1 :: "directory \<Rightarrow> string \<Rightarrow> bool" where
  "settled1 d p =
     (if CHR ''*'' \<in> set p then list_all (\<lambda>n. \<not> isdir d n) (glob d p)
      else \<not> path_exists d p)"

definition settled :: "directory \<Rightarrow> string list \<Rightarrow> bool" where
  "settled d ps = list_all (settled1 d) ps"


text \<open>Projections of a trace: everything but the printing, the operations entered, the
  commands spawned, the paths handed to \<open>shutil.rmtree\<close>.\<close>

fun is_print :: "event \<Rightarrow> bool" where
  "is_print (Print s) = True"
| "is_print ev = False"

definition actions :: "event list \<Rightarrow> event list" where
  "actions t = filter (\<lambda>ev. \<not> is_print ev) t"

fun calls :: "event list \<Rightarrow> operation list" where
  "calls [] = []"
| "calls (Call opn # t) = opn # calls t"
| "calls (ev # t) = calls t"

fun spawns :: "event list \<Rightarrow> string list list" where
  "spawns [] = []"
| "spawns (Spawn cmd cwd # t) = cmd # spawns t"
| "spawns (ev # t) = spawns t"

fun rmtrees :: "event list \<Rightarrow> string list" where
  "rmtrees [] = []"
| "rmtrees (Rmtree p # t) = p # rmtrees t"
| "rmtrees (ev # t) = rmtrees t"

text \<open>
  The packages \<open>check_requirements\<close> gets to: those that import, up to and including the
  first that does not; and the lines it prints for one package.
\<close>

definition tried :: "env \<Rightarrow> string list \<Rightarrow> string list" where
  "tried e ps = takeWhile (importable e) ps @ take 1 (dropWhile (importable e) ps)"

definition status_lines :: "env \<Rightarrow> string \<Rightarrow> string list" where
  "status_lines e p =
     (if importable e p then [p @ '' is installed'']
      else [p @ '' is not installed'', ''Install with: pip install '' @ p])"

text \<open>
  The shapes a run of \<open>main\<close> can take: its outcome together with its actions, from a
  working directory \<open>d\<close>. \<open>l\<close> is the line typed at the menu, \<open>c\<close> the line typed at the
  confirmation prompt, \<open>rs\<close> the paths \<open>clean_build\<close> handed to \<open>shutil.rmtree\<close>.
\<close>

definition preamble :: "string \<Rightarrow> event list" where
  "preamble l = [Import ''build'', Import ''twine'', Input menu_prompt (Some l)]"

definition cleaning :: "string list \<Rightarrow> event list" where
  "cleaning rs = Call Clean # map Rmtree rs"

definition built_and_checked :: "env \<Rightarrow> string \<Rightarrow> string list \<Rightarrow> event list" where
  "built_and_checked e l rs =
     preamble l @ cleaning rs @
     [Call Build, Spawn (build_cmd e) None, Ret Build True,
      Call Check, Spawn (check_cmd e) None, Ret Check True]"

inductive run_shape :: "env \<Rightarrow> directory \<Rightarrow> outcome \<Rightarrow> event list \<Rightarrow> bool"
  for e :: env and d :: directory where
  shape_no_marker:
    "\<not> path_exists d ''pyproject.toml'' \<Longrightarrow> run_shape e d (SysExit 1) []"
| shape_no_tools:
    "path_exists d ''pyproject.toml'' \<Longrightarrow> \<not> list_all (importable e) required_packages \<Longrightarrow>
     run_shape e d (SysExit 1) (map Import (tried e required_packages))"
| shape_menu_eof:
    "path_exists d ''pyproject.toml'' \<Longrightarrow> list_all (importable e) required_packages \<Longrightarrow>
     run_shape e d (Uncaught EOFError)
       [Import ''build'', Import ''twine'', Input menu_prompt None]"
| shape_invalid:
    "path_exists d ''pyproject.toml'' \<Longrightarrow> list_all (importable e) required_packages \<Longrightarrow>
     strip l \<notin> set [''1'', ''2'', ''3'', ''4''] \<Longrightarrow>
     run_shape e d (SysExit 1) (preamble l)"
| shape_clean_only:
    "path_exists d ''pyproject.toml'' \<Longrightarrow> list_all (importable e) required_packages \<Longrightarrow>
     strip l = ''4'' \<Longrightarrow>
     run_shape e d Returned (preamble l @ cleaning rs)"
| shape_clean_raised:
    "path_exists d ''pyproject.toml'' \<Longrightarrow> list_all (importable e) required_packages \<Longrightarrow>
     strip l \<in> set [''1'', ''2'', ''3'', ''4''] \<Longrightarrow>
     run_shape e d (Uncaught (NotADirectoryError p)) (preamble l @ cleaning rs)"
| shape_build_raised:
    "path_exists d ''pyproject.toml'' \<Longrightarrow> list_all (importable e) required_packages \<Longrightarrow>
     strip l \<in> set [''1'', ''2'', ''3''] \<Longrightarrow>
     run_shape e d (Uncaught x)
       (preamble l @ cleaning rs @ [Call Build, Spawn (build_cmd e) None])"
| shape_build_failed:
    "path_exists d ''pyproject.toml'' \<Longrightarrow> list_all (importable e) required_packages \<Longrightarrow>
     strip l \<in> set [''1'', ''2'', ''3''] \<Longrightarrow>
     run_shape e d (SysExit 1)
       (preamble l @ cleaning rs @ [Call Build, Spawn (build_cmd e) None, Ret Build False])"
| shape_check_raised:
    "path_exists d ''pyproject.toml'' \<Longrightarrow> list_all (importable e) required_packages \<Longrightarrow>
     strip l \<in> set [''1'', ''2'', ''3''] \<Longrightarrow>
     run_shape e d (Uncaught x)
       (preamble l @ cleaning rs @
        [Call Build, Spawn (build_cmd e) None, Ret Build True,
         Call Check, Spawn (check_cmd e) None])"
| shape_check_failed:
    "path_exists d ''pyproject.toml'' \<Longrightarrow> list_all (importable e) required_packages \<Longrightarrow>
     strip l \<in> set [''1'', ''2'', ''3''] \<Longrightarrow>
     run_shape e d (SysExit 1)
       (preamble l @ cleaning rs @
        [Call Build, Spawn (build_cmd e) None, Ret Build True,
         Call Check, Spawn (check_cmd e) None, Ret Check False])"
| shape_build_only:
    "path_exists d ''pyproject.toml'' \<Longrightarrow> list_all (importable e) required_packages \<Longrightarrow>
     strip l = ''1'' \<Longrightarrow>
     run_shape e d Returned (built_and_checked e l rs)"
| shape_test_raised:
    "path_exists d ''pyproject.toml'' \<Longrightarrow> list_all (importable e) required_packages \<Longrightarrow>
     strip l = ''2'' \<Longrightarrow>
     run_shape e d (Uncaught x)
       (built_and_checked e l rs @ [Call UploadTest, Spawn (upload_test_cmd e) None])"
| shape_test_done:
    "path_exists d ''pyproject.toml'' \<Longrightarrow> list_all (importable e) required_packages \<Longrightarrow>
     strip l = ''2'' \<Longrightarrow>
     run_shape e d (if ok then Returned else SysExit 1)
       (built_and_checked e l rs @
        [Call UploadTest, Spawn (upload_test_cmd e) None, Ret UploadTest ok])"
| shape_confirm_eof:
    "path_exists d ''pyproject.toml'' \<Longrightarrow> list_all (importable e) required_packages \<Longrightarrow>
     strip l = ''3'' \<Longrightarrow>
     run_shape e d (Uncaught EOFError)
       (built_and_checked e l rs @ [Input confirm_prompt None])"
| shape_declined:
    "path_exists d ''pyproject.toml'' \<Longrightarrow> list_all (importable e) required_packages \<Longrightarrow>
     strip l = ''3'' \<Longrightarrow> lower (strip c) \<noteq> ''y'' \<Longrightarrow>
     run_shape e d (SysExit 1)
       (built_and_checked e l rs @ [Input confirm_prompt (Some c)])"
| shape_prod_raised:
    "path_exists d ''pyproject.toml'' \<Longrightarrow> list_all (importable e) required_packages \<Longrightarrow>
     strip l = ''3'' \<Longrightarrow> lower (strip c) = ''y'' \<Longrightarrow>
     run_shape e d (Uncaught x)
       (built_and_checked e l rs @
        [Input confirm_prompt (Some c), Call UploadProd, Spawn (upload_cmd e) None])"
| shape_prod_done:
    "path_exists d ''pyproject.toml'' \<Longrightarrow> list_all (importable e) required_packages \<Longrightarrow>
     strip l = ''3'' \<Longrightarrow> lower (strip c) = ''y'' \<Longrightarrow>
     run_shape e d (if ok then Returned else SysExit 1)
       (built_and_checked e l rs @
        [Input confirm_prompt (Some c), Call UploadProd, Spawn (upload_cmd e) None,
         Ret UploadProd ok])"




subsection \<open>Sample inputs\<close>

text \<open>
  A project directory after a build: the marker file, the two output directories, the
  metadata directory the build leaves, a regular file whose name ends in \<open>.egg-info\<close>, and
  a source directory that holds a metadata directory of its own.
\<close>

definition sample_project :: directory where
  "sample_project =
     [(''pyproject.toml'', File),
      (''build'', Dir [(''lib'', Dir [(''pyframe.py'', File)])]),
      (''dist'', Dir [(''pyframe-0.1.0.tar.gz'', File)]),
      (''pyframe.egg-info'', Dir [(''PKG-INFO'', File)]),
      (''notes.egg-info'', File),
      (''src'', Dir [(''pyframe.egg-info'', Dir [])])]"


text \<open>
  An environment in which both tools import and every command runs, prints a line and
  exits with status 0; the same with one command exiting with status 1; and one in which
  no child process can be started.
\<close>

definition sample_env :: env where
  "sample_env =
     \<lparr>sys_executable = ''python3'',
      importable = (\<lambda>p. True),
      launch = (\<lambda>cmd cwd d. (Inr \<lparr>returncode = 0, stdout = ''done'', stderr = []\<rparr>, d))\<rparr>"

definition sample_env_failing :: "string list \<Rightarrow> env" where
  "sample_env_failing bad =
     sample_env\<lparr>launch := (\<lambda>cmd cwd d.
       if cmd = bad then (Inr \<lparr>returncode = 1, stdout = [], stderr = ''broken''\<rparr>, d)
       else launch sample_env cmd cwd d)\<rparr>"

definition sample_env_unlaunchable :: env where
  "sample_env_unlaunchable =
     sample_env\<lparr>launch := (\<lambda>cmd cwd d. (Inl (FileNotFoundError (hd cmd)), d))\<rparr>"


section \<open>Properties\<close>

subsection \<open>The working directory and \<open>clean_build\<close>\<close>

lemma map_of_remove_entry: "map_of (remove_entry p d) q = (if q = p then None else map_of d q)"
  by (induction d) auto

lemma isdir_remove_entry: "isdir (remove_entry p d) q = (q \<noteq> p \<and> isdir d q)"
  by (simp add: isdir_def map_of_remove_entry)

lemma fs_log [simp]: "fs (log ev w) = fs w"
  by (simp add: log_def)

lemma fs_print [simp]: "fs (print s w) = fs w"
  by (simp add: print_def)

lemma rmtree_dir:
  "isdir (fs w) p \<Longrightarrow> rmtree p w = (Inr (), (log (Rmtree p) w)\<lparr>fs := remove_entry p (fs w)\<rparr>)"
  by (auto simp: rmtree_def isdir_def Let_def split: option.splits node.splits)

lemma rmtree_file:
  "map_of (fs w) p = Some File \<Longrightarrow> rmtree p w = (Inl (NotADirectoryError p), log (Rmtree p) w)"
  by (simp add: rmtree_def Let_def)

lemma clean_matches_ok: "fst (clean_matches ps w) = Inr ()"
  by (induction ps arbitrary: w) (simp_all add: rmtree_dir)

lemma clean_matches_lookup:
  "map_of (fs (snd (clean_matches ps w))) n =
     (if n \<in> set ps \<and> isdir (fs w) n then None else map_of (fs w) n)"
  by (induction ps arbitrary: w) (auto simp: rmtree_dir map_of_remove_entry isdir_remove_entry)

lemma clean_matches_skip:
  "\<forall>n \<in> set ps. \<not> isdir (fs w) n \<Longrightarrow> clean_matches ps w = (Inr (), w)"
  by (induction ps arbitrary: w) simp_all

lemma fnmatch_literal: "CHR ''*'' \<notin> set p \<Longrightarrow> fnmatch n p = (n = p)"
  by (induction n p rule: fnmatch.induct) auto

lemma fnmatch_star_literal: "CHR ''*'' \<notin> set p \<Longrightarrow> fnmatch n (CHR ''*'' # p) = suffix p n"
  by (induction n) (auto simp: fnmatch_literal suffix_Cons)

lemma fnmatch_egg_info: "fnmatch n ''*.egg-info'' = suffix ''.egg-info'' n"
  by (rule fnmatch_star_literal) simp

text \<open>One pattern of the outer loop, by what the working directory holds.\<close>

lemma clean_patterns_glob:
  "CHR ''*'' \<in> set p \<Longrightarrow>
   clean_patterns (p # ps) w = clean_patterns ps (snd (clean_matches (glob (fs w) p) w))"
  using clean_matches_ok [of "glob (fs w) p" w]
  by (cases "clean_matches (glob (fs w) p) w") simp

lemma clean_patterns_absent:
  "CHR ''*'' \<notin> set p \<Longrightarrow> map_of (fs w) p = None \<Longrightarrow>
   clean_patterns (p # ps) w = clean_patterns ps w"
  by (simp add: path_exists_def)

lemma clean_patterns_file:
  "CHR ''*'' \<notin> set p \<Longrightarrow> map_of (fs w) p = Some File \<Longrightarrow>
   clean_patterns (p # ps) w = (Inl (NotADirectoryError p), log (Rmtree p) w)"
  by (simp add: path_exists_def rmtree_file)

lemma clean_patterns_dir:
  "CHR ''*'' \<notin> set p \<Longrightarrow> map_of (fs w) p = Some (Dir sub) \<Longrightarrow>
   clean_patterns (p # ps) w =
     clean_patterns ps
       (print (''Removed '' @ p) ((log (Rmtree p) w)\<lparr>fs := remove_entry p (fs w)\<rparr>))"
  by (simp add: path_exists_def rmtree_dir isdir_def)

lemma node_cases:
  "map_of d p = None \<or> map_of d p = Some File \<or> (\<exists>sub. map_of d p = Some (Dir sub))"
  by (cases "map_of d p") (auto intro: node.exhaust)

declare clean_patterns.simps(2) [simp del]

lemma fs_rmtree_lookup:
  "map_of (fs (snd (rmtree p w))) n = None \<or> map_of (fs (snd (rmtree p w))) n = map_of (fs w) n"
  by (auto simp: rmtree_def Let_def map_of_remove_entry split: option.splits node.splits)

text \<open>What one pattern does to the working directory, and what it leaves to the rest.\<close>

lemma clean_patterns_step:
  "\<exists>w1. (clean_patterns (p # ps) w = clean_patterns ps w1 \<or>
         (clean_patterns (p # ps) w = (Inl (NotADirectoryError p), w1) \<and>
          CHR ''*'' \<notin> set p \<and> map_of (fs w) p = Some File \<and> fs w1 = fs w)) \<and>
        (\<forall>n. map_of (fs w1) n =
           (if (if CHR ''*'' \<in> set p then n \<in> set (glob (fs w) p) else n = p) \<and> isdir (fs w) n
            then None else map_of (fs w) n))"
proof (cases "CHR ''*'' \<in> set p")
  case True
  then show ?thesis
    by (intro exI [of _ "snd (clean_matches (glob (fs w) p) w)"])
      (simp add: clean_patterns_glob clean_matches_lookup)
next
  case False
  from node_cases [of "fs w" p] show ?thesis
  proof (elim disjE exE)
    assume "map_of (fs w) p = None"
    with False show ?thesis
      by (intro exI [of _ w]) (auto simp: clean_patterns_absent isdir_def)
  next
    assume "map_of (fs w) p = Some File"
    with False show ?thesis
      by (intro exI [of _ "log (Rmtree p) w"]) (auto simp: clean_patterns_file isdir_def)
  next
    fix sub assume "map_of (fs w) p = Some (Dir sub)"
    with False show ?thesis
      by (intro exI [of _ "print (''Removed '' @ p) ((log (Rmtree p) w)\<lparr>fs := remove_entry p (fs w)\<rparr>)"])
        (auto simp: clean_patterns_dir isdir_def map_of_remove_entry)
  qed
qed

lemma clean_patterns_mono:
  "map_of (fs (snd (clean_patterns ps w))) n = None \<or>
   map_of (fs (snd (clean_patterns ps w))) n = map_of (fs w) n"
proof (induction ps arbitrary: w)
  case Nil
  show ?case by simp
next
  case (Cons p ps)
  from clean_patterns_step [of p ps w] obtain w1 where
    body: "clean_patterns (p # ps) w = clean_patterns ps w1 \<or>
           clean_patterns (p # ps) w = (Inl (NotADirectoryError p), w1) \<and> fs w1 = fs w"
    and look: "\<And>n. map_of (fs w1) n = None \<or> map_of (fs w1) n = map_of (fs w) n"
    by (metis (no_types, lifting))
  from body show ?case
  proof
    assume "clean_patterns (p # ps) w = clean_patterns ps w1"
    with Cons.IH [of w1] look [of n] show ?thesis by auto
  next
    assume "clean_patterns (p # ps) w = (Inl (NotADirectoryError p), w1) \<and> fs w1 = fs w"
    then show ?thesis by simp
  qed
qed

lemma isdir_mono:
  "map_of d' n = None \<or> map_of d' n = map_of d n \<Longrightarrow> isdir d' n \<Longrightarrow> isdir d n"
  by (auto simp: isdir_def)

lemma clean_patterns_frame:
  "map_of (fs (snd (clean_patterns ps w))) n \<noteq> map_of (fs w) n \<Longrightarrow>
   \<exists>p \<in> set ps. (if CHR ''*'' \<in> set p then glob_match n p else n = p) \<and> isdir (fs w) n"
proof (induction ps arbitrary: w)
  case Nil
  then show ?case by simp
next
  case (Cons p ps)
  from clean_patterns_step [of p ps w] obtain w1 where
    body: "clean_patterns (p # ps) w = clean_patterns ps w1 \<or>
           clean_patterns (p # ps) w = (Inl (NotADirectoryError p), w1) \<and> fs w1 = fs w"
    and look: "\<And>n. map_of (fs w1) n =
           (if (if CHR ''*'' \<in> set p then n \<in> set (glob (fs w) p) else n = p) \<and> isdir (fs w) n
            then None else map_of (fs w) n)"
    by (metis (no_types, lifting))
  have here: "(if CHR ''*'' \<in> set p then glob_match n p else n = p) \<and> isdir (fs w) n"
    if "map_of (fs w1) n \<noteq> map_of (fs w) n"
    using that look [of n] by (auto simp: glob_def split: if_splits)
  from body show ?case
  proof
    assume eq: "clean_patterns (p # ps) w = clean_patterns ps w1"
    show ?thesis
    proof (cases "map_of (fs w1) n = map_of (fs w) n")
      case True
      with Cons.prems eq have "map_of (fs (snd (clean_patterns ps w1))) n \<noteq> map_of (fs w1) n"
        by simp
      from Cons.IH [OF this] True show ?thesis
        by (auto simp: isdir_def)
    next
      case False
      from here [OF this] show ?thesis by simp
    qed
  next
    assume "clean_patterns (p # ps) w = (Inl (NotADirectoryError p), w1) \<and> fs w1 = fs w"
    with Cons.prems show ?thesis by simp
  qed
qed


lemma settled1_skip:
  "settled1 (fs w) p \<Longrightarrow> clean_patterns (p # ps) w = clean_patterns ps w"
  by (cases "CHR ''*'' \<in> set p")
    (simp_all add: settled1_def clean_patterns_glob clean_matches_skip list_all_iff
      clean_patterns_absent path_exists_def)

lemma settled_skip: "settled (fs w) ps \<Longrightarrow> clean_patterns ps w = (Inr (), w)"
  by (induction ps) (simp_all add: settled_def settled1_skip)

lemma settled1_mono:
  assumes "settled1 d p" and sub: "\<And>n. map_of d' n = None \<or> map_of d' n = map_of d n"
  shows "settled1 d' p"
proof (cases "CHR ''*'' \<in> set p")
  case True
  have "\<not> isdir d' n" if n: "n \<in> set (glob d' p)" for n
  proof
    assume dir: "isdir d' n"
    then obtain sub' where "map_of d' n = Some (Dir sub')"
      by (auto simp: isdir_def split: option.splits node.splits)
    with sub [of n] have look: "map_of d n = Some (Dir sub')" by simp
    then have "n \<in> fst ` set d" by (metis map_of_eq_None_iff option.distinct(1))
    with n have "n \<in> set (glob d p)" by (simp add: glob_def)
    with assms(1) True have "\<not> isdir d n" by (simp add: settled1_def list_all_iff)
    with look show False by (simp add: isdir_def)
  qed
  with True show ?thesis by (simp add: settled1_def list_all_iff)
next
  case False
  with assms(1) sub [of p] show ?thesis by (auto simp: settled1_def path_exists_def)
qed

lemma clean_patterns_go:
  assumes "CHR ''*'' \<in> set p \<or> map_of (fs w) p \<noteq> Some File"
  shows "\<exists>w1. clean_patterns (p # ps) w = clean_patterns ps w1 \<and> settled1 (fs w1) p \<and>
           (\<forall>n. map_of (fs w1) n = None \<or> map_of (fs w1) n = map_of (fs w) n)"
proof (cases "CHR ''*'' \<in> set p")
  case True
  let ?w1 = "snd (clean_matches (glob (fs w) p) w)"
  have "\<not> isdir (fs ?w1) n" if "n \<in> set (glob (fs ?w1) p)" for n
  proof
    assume "isdir (fs ?w1) n"
    then obtain sub where s: "map_of (fs ?w1) n = Some (Dir sub)"
      by (auto simp: isdir_def split: option.splits node.splits)
    then have *: "\<not> (n \<in> set (glob (fs w) p) \<and> isdir (fs w) n)" "map_of (fs w) n = Some (Dir sub)"
      by (auto simp: clean_matches_lookup split: if_splits)
    then have "n \<in> fst ` set (fs w)" by (metis map_of_eq_None_iff option.distinct(1))
    with that have "n \<in> set (glob (fs w) p)" by (simp add: glob_def)
    with * show False by (simp add: isdir_def)
  qed
  with True show ?thesis
    by (intro exI [of _ ?w1])
      (simp add: clean_patterns_glob clean_matches_lookup settled1_def list_all_iff)
next
  case False
  from node_cases [of "fs w" p] assms False
  have "map_of (fs w) p = None \<or> (\<exists>sub. map_of (fs w) p = Some (Dir sub))"
    by auto
  then show ?thesis
  proof (elim disjE exE)
    assume "map_of (fs w) p = None"
    with False show ?thesis
      by (intro exI [of _ w]) (simp add: clean_patterns_absent settled1_def path_exists_def)
  next
    fix sub assume "map_of (fs w) p = Some (Dir sub)"
    with False show ?thesis
      by (intro exI [of _ "print (''Removed '' @ p) ((log (Rmtree p) w)\<lparr>fs := remove_entry p (fs w)\<rparr>)"])
        (simp add: clean_patterns_dir settled1_def path_exists_def map_of_remove_entry)
  qed
qed

lemma clean_patterns_settles:
  "fst (clean_patterns ps w) = Inr u \<Longrightarrow> settled (fs (snd (clean_patterns ps w))) ps"
proof (induction ps arbitrary: w)
  case Nil
  show ?case by (simp add: settled_def)
next
  case (Cons p ps)
  have "CHR ''*'' \<in> set p \<or> map_of (fs w) p \<noteq> Some File"
    using Cons.prems by (auto simp: clean_patterns_file)
  from clean_patterns_go [OF this, of ps] obtain w1 where
    eq: "clean_patterns (p # ps) w = clean_patterns ps w1" and s1: "settled1 (fs w1) p"
    by blast
  from Cons.prems eq have "settled (fs (snd (clean_patterns ps w1))) ps"
    by (simp add: Cons.IH)
  moreover have "settled1 (fs (snd (clean_patterns ps w1))) p"
    using s1 clean_patterns_mono [of ps w1] by (rule settled1_mono)
  ultimately show ?case by (simp add: eq settled_def)
qed

lemma clean_patterns_idem:
  "fs v = fs (snd (clean_patterns ps w)) \<Longrightarrow> fs (snd (clean_patterns ps v)) = fs v"
proof (induction ps arbitrary: w v)
  case Nil
  show ?case by simp
next
  case (Cons p ps)
  show ?case
  proof (cases "CHR ''*'' \<in> set p \<or> map_of (fs w) p \<noteq> Some File")
    case True
    from clean_patterns_go [OF this, of ps] obtain w1 where
      eq: "clean_patterns (p # ps) w = clean_patterns ps w1" and s1: "settled1 (fs w1) p"
      by blast
    from Cons.prems eq have v: "fs v = fs (snd (clean_patterns ps w1))" by simp
    have "settled1 (fs (snd (clean_patterns ps w1))) p"
      using s1 clean_patterns_mono [of ps w1] by (rule settled1_mono)
    with v have "clean_patterns (p # ps) v = clean_patterns ps v"
      by (simp add: settled1_skip)
    with Cons.IH [OF v] show ?thesis by simp
  next
    case False
    then have f: "CHR ''*'' \<notin> set p" "map_of (fs w) p = Some File" by simp_all
    with Cons.prems have "map_of (fs v) p = Some File" by (simp add: clean_patterns_file)
    with f show ?thesis by (simp add: clean_patterns_file)
  qed
qed


lemma clean_build_result:
  "fst (clean_build w) =
     (if map_of (fs w) ''build'' = Some File then Inl (NotADirectoryError ''build'')
      else if map_of (fs w) ''dist'' = Some File then Inl (NotADirectoryError ''dist'')
      else Inr ())"
proof -
  have star: "CHR ''*'' \<notin> set ''build''" "CHR ''*'' \<notin> set ''dist''"
    "CHR ''*'' \<in> set ''*.egg-info''"
    by simp_all
  have egg: "fst (clean_patterns [''*.egg-info''] v) = Inr ()" for v
    by (simp only: clean_patterns_glob [OF star(3)] clean_patterns.simps(1) fst_conv)
  have dist: "fst (clean_patterns [''dist'', ''*.egg-info''] v) =
      (if map_of (fs v) ''dist'' = Some File then Inl (NotADirectoryError ''dist'') else Inr ())"
    for v
    using node_cases [of "fs v" "''dist''"]
    by (auto simp: clean_patterns_absent [OF star(2)] clean_patterns_file [OF star(2)]
        clean_patterns_dir [OF star(2)] egg)
  have ne: "''dist'' \<noteq> ''build''" by simp
  define w0 where "w0 = print ''Cleaning build artifacts...'' (log (Call Clean) w)"
  have fs0: "fs w0 = fs w" by (simp add: w0_def)
  have "fst (clean_patterns [''build'', ''dist'', ''*.egg-info''] w0) =
     (if map_of (fs w0) ''build'' = Some File then Inl (NotADirectoryError ''build'')
      else if map_of (fs w0) ''dist'' = Some File then Inl (NotADirectoryError ''dist'')
      else Inr ())"
    using node_cases [of "fs w0" "''build''"]
    by (auto simp: clean_patterns_absent [OF star(1)] clean_patterns_file [OF star(1)]
        clean_patterns_dir [OF star(1)] dist map_of_remove_entry ne)
  then show ?thesis
    by (simp only: clean_build_def dirs_to_clean_def w0_def [symmetric] fs0)
qed


lemma settled_dirs_to_clean:
  "settled d dirs_to_clean =
     (\<not> path_exists d ''build'' \<and> \<not> path_exists d ''dist'' \<and>
      (\<forall>n \<in> set (glob d ''*.egg-info''). \<not> isdir d n))"
  by (simp add: settled_def settled1_def dirs_to_clean_def list_all_iff)

text \<open>
  C8: \<open>clean_build\<close> is idempotent. From every world, the working directory after two
  runs in succession is the one after the first run, whether or not a run raises. When
  the first run returns, the second returns too and does nothing but print its banner:
  no path is removed. And where \<open>build\<close> and \<open>dist\<close> do not exist and no match of
  \<open>*.egg-info\<close> is a directory, \<open>clean_build\<close> is that no-op, not an error.
\<close>

theorem clean_build_idempotent:
  "fs (snd (clean_build (snd (clean_build w)))) = fs (snd (clean_build w)) \<and>
   (fst (clean_build w) = Inr () \<longrightarrow>
      clean_build (snd (clean_build w)) =
        (Inr (), print ''Cleaning build artifacts...'' (log (Call Clean) (snd (clean_build w))))) \<and>
   (\<not> path_exists (fs w) ''build'' \<and> \<not> path_exists (fs w) ''dist'' \<and>
    (\<forall>n \<in> set (glob (fs w) ''*.egg-info''). \<not> isdir (fs w) n) \<longrightarrow>
      clean_build w = (Inr (), print ''Cleaning build artifacts...'' (log (Call Clean) w)))"
proof (intro conjI impI)
  let ?start = "\<lambda>v. print ''Cleaning build artifacts...'' (log (Call Clean) v)"
  let ?w' = "snd (clean_build w)"
  have "fs (?start ?w') = fs (snd (clean_patterns dirs_to_clean (?start w)))"
    by (simp add: clean_build_def)
  then have "fs (snd (clean_patterns dirs_to_clean (?start ?w'))) = fs (?start ?w')"
    by (rule clean_patterns_idem)
  then show "fs (snd (clean_build ?w')) = fs ?w'"
    by (simp add: clean_build_def)
next
  assume "fst (clean_build w) = Inr ()"
  then have "settled (fs (snd (clean_build w))) dirs_to_clean"
    unfolding clean_build_def by (rule clean_patterns_settles)
  then show "clean_build (snd (clean_build w)) =
      (Inr (), print ''Cleaning build artifacts...'' (log (Call Clean) (snd (clean_build w))))"
    by (simp add: clean_build_def [of "snd (clean_build w)"] settled_skip)
next
  assume "\<not> path_exists (fs w) ''build'' \<and> \<not> path_exists (fs w) ''dist'' \<and>
    (\<forall>n \<in> set (glob (fs w) ''*.egg-info''). \<not> isdir (fs w) n)"
  then have "settled (fs w) dirs_to_clean"
    by (simp add: settled_dirs_to_clean)
  then show "clean_build w = (Inr (), print ''Cleaning build artifacts...'' (log (Call Clean) w))"
    by (simp add: clean_build_def settled_skip)
qed

theorem clean_build_idempotent_witness:
  "fst (clean_build (initial sample_project [])) = Inr () \<and>
   fs (snd (clean_build (initial sample_project []))) =
     [(''pyproject.toml'', File), (''notes.egg-info'', File),
      (''src'', Dir [(''pyframe.egg-info'', Dir [])])] \<and>
   fs (snd (clean_build (snd (clean_build (initial sample_project []))))) =
     [(''pyproject.toml'', File), (''notes.egg-info'', File),
      (''src'', Dir [(''pyframe.egg-info'', Dir [])])] \<and>
   fst (clean_build (snd (clean_build (initial sample_project [])))) = Inr () \<and>
   \<not> path_exists (fs (initial [(''notes.egg-info'', File)] [])) ''build'' \<and>
   \<not> path_exists (fs (initial [(''notes.egg-info'', File)] [])) ''dist'' \<and>
   glob (fs (initial [(''notes.egg-info'', File)] [])) ''*.egg-info'' = [''notes.egg-info''] \<and>
   \<not> isdir (fs (initial [(''notes.egg-info'', File)] [])) ''notes.egg-info'' \<and>
   clean_build (initial [(''notes.egg-info'', File)] []) =
     (Inr (), \<lparr>fs = [(''notes.egg-info'', File)], stdin = [],
        trace = [Call Clean, Print ''Cleaning build artifacts...'']\<rparr>)"
proof -
  have run1: "clean_build (initial sample_project []) =
    (Inr (),
     \<lparr>fs = [(''pyproject.toml'', File), (''notes.egg-info'', File),
            (''src'', Dir [(''pyframe.egg-info'', Dir [])])],
      stdin = [],
      trace = [Call Clean, Print ''Cleaning build artifacts...'', Rmtree ''build'',
        Print ''Removed build'', Rmtree ''dist'', Print ''Removed dist'',
        Rmtree ''pyframe.egg-info'', Print ''Removed pyframe.egg-info'']\<rparr>)"
    by code_simp
  have g: "glob (fs (initial [(''notes.egg-info'', File)] [])) ''*.egg-info'' = [''notes.egg-info'']"
    by code_simp
  show ?thesis
    using clean_build_idempotent [of "initial sample_project []"]
      clean_build_idempotent [of "initial [(''notes.egg-info'', File)] []"]
    by (simp add: run1 g) (simp add: initial_def path_exists_def isdir_def print_def log_def)
qed

text \<open>
  C9: the frame of \<open>clean_build\<close>. An entry of the working directory is left as it was
  (with everything below it, so also a metadata directory nested in a subdirectory)
  when it is not a directory, and when its name is neither \<open>build\<close> nor \<open>dist\<close> nor a
  match of \<open>*.egg-info\<close> that \<open>glob\<close> returns. An entry that does change is removed whole.
\<close>

theorem clean_build_frame:
  "(\<not> isdir (fs w) n \<or>
    (n \<noteq> ''build'' \<and> n \<noteq> ''dist'' \<and> \<not> (fnmatch n ''*.egg-info'' \<and> \<not> is_hidden n))
      \<longrightarrow> map_of (fs (snd (clean_build w))) n = map_of (fs w) n) \<and>
   (map_of (fs (snd (clean_build w))) n = None \<or>
    map_of (fs (snd (clean_build w))) n = map_of (fs w) n)"
proof -
  let ?w0 = "print ''Cleaning build artifacts...'' (log (Call Clean) w)"
  have gm: "glob_match n ''*.egg-info'' = (fnmatch n ''*.egg-info'' \<and> \<not> is_hidden n)"
    by (auto simp: glob_match_def is_hidden_def)
  have "n = ''build'' \<and> isdir (fs w) n \<or> n = ''dist'' \<and> isdir (fs w) n \<or>
      (fnmatch n ''*.egg-info'' \<and> \<not> is_hidden n) \<and> isdir (fs w) n"
    if "map_of (fs (snd (clean_build w))) n \<noteq> map_of (fs w) n"
    using clean_patterns_frame [of dirs_to_clean ?w0 n] that
    by (simp add: clean_build_def dirs_to_clean_def gm)
  moreover have "map_of (fs (snd (clean_build w))) n = None \<or>
    map_of (fs (snd (clean_build w))) n = map_of (fs w) n"
    using clean_patterns_mono [of dirs_to_clean ?w0 n] by (simp add: clean_build_def)
  ultimately show ?thesis by blast
qed

theorem clean_build_frame_witness:
  "\<not> isdir (fs (initial sample_project [])) ''notes.egg-info'' \<and>
   fnmatch ''notes.egg-info'' ''*.egg-info'' \<and>
   map_of (fs (snd (clean_build (initial sample_project [])))) ''notes.egg-info'' = Some File \<and>
   isdir (fs (initial sample_project [])) ''src'' \<and>
   \<not> fnmatch ''src'' ''*.egg-info'' \<and>
   map_of (fs (snd (clean_build (initial sample_project [])))) ''src'' =
     Some (Dir [(''pyframe.egg-info'', Dir [])])"
  using clean_build_frame [of "initial sample_project []" "''notes.egg-info''"]
    clean_build_frame [of "initial sample_project []" "''src''"]
  by (simp add: initial_def sample_project_def isdir_def)




subsection \<open>\<open>check_requirements\<close> and \<open>run_command\<close>\<close>

lemma check_packages_eq:
  "check_packages e ps w =
     (list_all (importable e) ps,
      w\<lparr>trace := trace w @
         concat (map (\<lambda>p. Import p # map Print (status_lines e p)) (tried e ps))\<rparr>)"
proof (induction ps arbitrary: w)
  case Nil
  show ?case by (simp add: tried_def)
next
  case (Cons p ps)
  show ?case
  proof (cases "importable e p")
    case True
    then show ?thesis
      by (simp add: Cons.IH Let_def tried_def status_lines_def log_def print_def)
  next
    case False
    then show ?thesis
      by (simp add: Let_def tried_def status_lines_def log_def print_def)
  qed
qed

lemma check_requirements_eq:
  "check_requirements e w =
     (list_all (importable e) required_packages,
      w\<lparr>trace := trace w @ Print ''Checking requirements...'' #
         concat (map (\<lambda>p. Import p # map Print (status_lines e p))
           (tried e required_packages))\<rparr>)"
  by (simp add: check_requirements_def check_packages_eq print_def log_def)

text \<open>
  C4, as amended: \<open>check_requirements\<close> takes the required tools in order, \<open>build\<close> then
  \<open>twine\<close>, and prints the status lines of each tool it gets to; it stops at the first
  tool that does not import, so \<open>twine\<close> is tried only when \<open>build\<close> imports. It returns
  \<open>True\<close> exactly when every required tool imports. The working directory and the
  pending input are untouched.
\<close>

theorem check_requirements_stops_at_first_missing:
  "check_requirements e w =
     (list_all (importable e) required_packages,
      w\<lparr>trace := trace w @ Print ''Checking requirements...'' #
         concat (map (\<lambda>p. Import p # map Print (status_lines e p))
           (tried e required_packages))\<rparr>) \<and>
   tried e required_packages =
     (if importable e ''build'' then [''build'', ''twine''] else [''build''])"
  by (simp add: check_requirements_eq tried_def required_packages_def)

theorem check_requirements_stops_at_first_missing_witness:
  "tried (sample_env\<lparr>importable := (\<lambda>p. p = ''build'')\<rparr>) required_packages = [''build'', ''twine''] \<and>
   check_requirements (sample_env\<lparr>importable := (\<lambda>p. p = ''build'')\<rparr>) (initial [] []) =
     (False,
      \<lparr>fs = [], stdin = [],
       trace = [Print ''Checking requirements...'',
         Import ''build'', Print ''build is installed'',
         Import ''twine'', Print ''twine is not installed'',
         Print ''Install with: pip install twine'']\<rparr>) \<and>
   check_requirements sample_env (initial [] []) =
     (True,
      \<lparr>fs = [], stdin = [],
       trace = [Print ''Checking requirements...'',
         Import ''build'', Print ''build is installed'',
         Import ''twine'', Print ''twine is installed'']\<rparr>)"
  using check_requirements_stops_at_first_missing
      [of "sample_env\<lparr>importable := (\<lambda>p. p = ''build'')\<rparr>" "initial [] []"]
    check_requirements_stops_at_first_missing [of sample_env "initial [] []"]
  by (simp add: sample_env_def initial_def status_lines_def required_packages_def)

text \<open>
  C4 as stated fails: where \<open>build\<close> does not import, \<open>twine\<close> is never tried and gets no
  status line.
\<close>

theorem check_requirements_skips_later_tools:
  "fst (check_requirements (sample_env\<lparr>importable := (\<lambda>p. p = ''twine'')\<rparr>) (initial [] [])) = False \<and>
   trace (snd (check_requirements (sample_env\<lparr>importable := (\<lambda>p. p = ''twine'')\<rparr>)
     (initial [] []))) =
     [Print ''Checking requirements...'', Import ''build'', Print ''build is not installed'',
      Print ''Install with: pip install build''] \<and>
   Import ''twine'' \<notin> set (trace (snd (check_requirements
     (sample_env\<lparr>importable := (\<lambda>p. p = ''twine'')\<rparr>) (initial [] []))))"
  by (simp add: check_requirements_eq sample_env_def initial_def status_lines_def
      required_packages_def tried_def)

lemma run_command_eq:
  "run_command e cmd cwd w =
     (case launch e cmd cwd (fs w) of
        (Inl x, d) \<Rightarrow>
          (Inl x,
           w\<lparr>fs := d,
             trace := trace w @ [Print (''Running: '' @ join '' '' cmd), Spawn cmd cwd]\<rparr>)
      | (Inr res, d) \<Rightarrow>
          (Inr (returncode res = 0),
           w\<lparr>fs := d,
             trace := trace w @ [Print (''Running: '' @ join '' '' cmd), Spawn cmd cwd] @
               (if returncode res \<noteq> 0 then
                  [Print (''Command failed: '' @ join '' '' cmd),
                   Print (''Error: '' @ stderr res)]
                else if stdout res \<noteq> [] then [Print (stdout res)] else [])\<rparr>))"
  by (simp add: run_command_def subprocess_run_def print_def log_def Let_def
      split: prod.splits sum.splits)

text \<open>
  C6, as amended: whenever \<open>subprocess.run\<close> returns a completed process, \<open>run_command\<close>
  returns a boolean: \<open>True\<close> for exit status 0, with the captured output printed when it is
  not empty, and \<open>False\<close> otherwise, with the failure line and the error stream printed.
  When \<open>subprocess.run\<close> itself raises, \<open>run_command\<close> has no handler and raises the same
  exception.
\<close>

theorem run_command_converts_exit_status:
  "(launch e cmd cwd (fs w) = (Inr res, d) \<longrightarrow>
      run_command e cmd cwd w =
        (Inr (returncode res = 0),
         w\<lparr>fs := d,
           trace := trace w @ [Print (''Running: '' @ join '' '' cmd), Spawn cmd cwd] @
             (if returncode res \<noteq> 0 then
                [Print (''Command failed: '' @ join '' '' cmd),
                 Print (''Error: '' @ stderr res)]
              else if stdout res \<noteq> [] then [Print (stdout res)] else [])\<rparr>)) \<and>
   (launch e cmd cwd (fs w) = (Inl x, d) \<longrightarrow>
      run_command e cmd cwd w =
        (Inl x,
         w\<lparr>fs := d,
           trace := trace w @ [Print (''Running: '' @ join '' '' cmd), Spawn cmd cwd]\<rparr>))"
  by (simp add: run_command_eq)

theorem run_command_converts_exit_status_witness:
  "launch (sample_env_failing [''twine'', ''check'']) [''twine'', ''check''] None
     (fs (initial [] [])) =
     (Inr \<lparr>returncode = 1, stdout = [], stderr = ''broken''\<rparr>, []) \<and>
   run_command (sample_env_failing [''twine'', ''check'']) [''twine'', ''check''] None
     (initial [] []) =
     (Inr False,
      \<lparr>fs = [], stdin = [],
       trace = [Print ''Running: twine check'', Spawn [''twine'', ''check''] None,
         Print ''Command failed: twine check'', Print ''Error: broken'']\<rparr>) \<and>
   launch sample_env_unlaunchable [''twine'', ''check''] None (fs (initial [] [])) =
     (Inl (FileNotFoundError ''twine''), []) \<and>
   run_command sample_env_unlaunchable [''twine'', ''check''] None (initial [] []) =
     (Inl (FileNotFoundError ''twine''),
      \<lparr>fs = [], stdin = [],
       trace = [Print ''Running: twine check'', Spawn [''twine'', ''check''] None]\<rparr>)"
  using run_command_converts_exit_status
      [where e = "sample_env_failing [''twine'', ''check'']" and cmd = "[''twine'', ''check'']"
        and cwd = None and w = "initial [] []"
        and res = "\<lparr>returncode = 1, stdout = [], stderr = ''broken''\<rparr>" and d = "[]"]
    run_command_converts_exit_status
      [where e = sample_env_unlaunchable and cmd = "[''twine'', ''check'']"
        and cwd = None and w = "initial [] []"
        and x = "FileNotFoundError ''twine''" and d = "[]"]
  by (simp add: sample_env_failing_def sample_env_unlaunchable_def sample_env_def initial_def)

text \<open>
  C6 as stated fails: a command whose program cannot be started makes \<open>run_command\<close>
  raise.
\<close>

theorem run_command_raises_when_launch_fails:
  "fst (run_command sample_env_unlaunchable [''no-such-program''] None (initial [] [])) =
     Inl (FileNotFoundError ''no-such-program'')"
  by (simp add: run_command_eq sample_env_unlaunchable_def sample_env_def initial_def)


subsection \<open>The actions of each step\<close>

lemma actions_append [simp]: "actions (s @ t) = actions s @ actions t"
  by (simp add: actions_def)

lemma actions_Nil [simp]: "actions [] = []"
  by (simp add: actions_def)

lemma actions_Cons [simp]: "actions (ev # t) = (if is_print ev then actions t else ev # actions t)"
  by (simp add: actions_def)

lemma trace_log [simp]: "trace (log ev w) = trace w @ [ev]"
  by (simp add: log_def)

lemma trace_print [simp]: "trace (print s w) = trace w @ [Print s]"
  by (simp add: print_def)

lemma initial_simps [simp]:
  "fs (initial d ls) = d" "stdin (initial d ls) = ls" "trace (initial d ls) = []"
  by (simp_all add: initial_def)

lemma actions_map_Rmtree [simp]: "actions (map Rmtree rs) = map Rmtree rs"
  by (induction rs) simp_all

lemma actions_map_Import [simp]: "actions (map Import ps) = map Import ps"
  by (induction ps) simp_all

lemma input_cases:
  "(\<exists>w'. input p w = (Inl EOFError, w') \<and> trace w' = trace w @ [Input p None]) \<or>
   (\<exists>l w'. input p w = (Inr l, w') \<and> trace w' = trace w @ [Input p (Some l)])"
  by (cases "stdin w") (simp_all add: input_def)

lemma check_requirements_cases:
  "\<exists>w'. check_requirements e w = (list_all (importable e) required_packages, w') \<and>
        fs w' = fs w \<and>
        actions (trace w') = actions (trace w) @ map Import (tried e required_packages)"
proof -
  have "actions (concat (map (\<lambda>p. Import p # map Print (status_lines e p)) ps)) = map Import ps"
    for ps
    by (induction ps) (simp_all add: status_lines_def)
  then show ?thesis
    by (simp add: check_requirements_eq)
qed

lemma clean_matches_actions:
  "\<exists>rs. actions (trace (snd (clean_matches ps w))) = actions (trace w) @ map Rmtree rs"
proof (induction ps arbitrary: w)
  case Nil
  show ?case by simp
next
  case (Cons p ps)
  show ?case
  proof (cases "isdir (fs w) p")
    case True
    let ?w1 = "print (''Removed '' @ p) ((log (Rmtree p) w)\<lparr>fs := remove_entry p (fs w)\<rparr>)"
    from Cons.IH [of ?w1] obtain rs where
      "actions (trace (snd (clean_matches ps ?w1))) = actions (trace ?w1) @ map Rmtree rs"
      by blast
    with True have "actions (trace (snd (clean_matches (p # ps) w))) =
        actions (trace w) @ map Rmtree (p # rs)"
      by (simp add: rmtree_dir)
    then show ?thesis by blast
  next
    case False
    with Cons.IH [of w] show ?thesis by simp
  qed
qed

lemma clean_patterns_actions:
  "\<exists>rs. actions (trace (snd (clean_patterns ps w))) = actions (trace w) @ map Rmtree rs"
proof (induction ps arbitrary: w)
  case Nil
  show ?case by simp
next
  case (Cons p ps)
  show ?case
  proof (cases "CHR ''*'' \<in> set p")
    case True
    let ?w1 = "snd (clean_matches (glob (fs w) p) w)"
    from clean_matches_actions [of "glob (fs w) p" w] obtain rs1 where
      1: "actions (trace ?w1) = actions (trace w) @ map Rmtree rs1" by blast
    from Cons.IH [of ?w1] obtain rs2 where
      "actions (trace (snd (clean_patterns ps ?w1))) = actions (trace ?w1) @ map Rmtree rs2"
      by blast
    with 1 True have "actions (trace (snd (clean_patterns (p # ps) w))) =
        actions (trace w) @ map Rmtree (rs1 @ rs2)"
      by (simp add: clean_patterns_glob)
    then show ?thesis by blast
  next
    case False
    from node_cases [of "fs w" p] show ?thesis
    proof (elim disjE exE)
      assume "map_of (fs w) p = None"
      with False Cons.IH [of w] show ?thesis by (simp add: clean_patterns_absent)
    next
      assume "map_of (fs w) p = Some File"
      with False have "actions (trace (snd (clean_patterns (p # ps) w))) =
          actions (trace w) @ map Rmtree [p]"
        by (simp add: clean_patterns_file)
      then show ?thesis by blast
    next
      fix sub assume dir: "map_of (fs w) p = Some (Dir sub)"
      let ?w1 = "print (''Removed '' @ p) ((log (Rmtree p) w)\<lparr>fs := remove_entry p (fs w)\<rparr>)"
      from Cons.IH [of ?w1] obtain rs where
        "actions (trace (snd (clean_patterns ps ?w1))) = actions (trace ?w1) @ map Rmtree rs"
        by blast
      with False dir have "actions (trace (snd (clean_patterns (p # ps) w))) =
          actions (trace w) @ map Rmtree (p # rs)"
        by (simp add: clean_patterns_dir)
      then show ?thesis by blast
    qed
  qed
qed

lemma clean_build_cases:
  "(\<exists>p w' rs. clean_build w = (Inl (NotADirectoryError p), w') \<and>
      actions (trace w') = actions (trace w) @ cleaning rs) \<or>
   (\<exists>w' rs. clean_build w = (Inr (), w') \<and>
      actions (trace w') = actions (trace w) @ cleaning rs)"
proof -
  let ?w0 = "print ''Cleaning build artifacts...'' (log (Call Clean) w)"
  from clean_patterns_actions [of dirs_to_clean ?w0] obtain rs where
    "actions (trace (snd (clean_build w))) = actions (trace w) @ cleaning rs"
    by (auto simp: clean_build_def cleaning_def)
  moreover have "(\<exists>p. fst (clean_build w) = Inl (NotADirectoryError p)) \<or>
      fst (clean_build w) = Inr ()"
    by (simp add: clean_build_result)
  ultimately show ?thesis
    by (cases "clean_build w") auto
qed

lemma operate_cases:
  "(\<exists>x w'. operate opn banner e cmd w = (Inl x, w') \<and>
      actions (trace w') = actions (trace w) @ [Call opn, Spawn cmd None]) \<or>
   (\<exists>ok w'. operate opn banner e cmd w = (Inr ok, w') \<and>
      actions (trace w') = actions (trace w) @ [Call opn, Spawn cmd None, Ret opn ok])"
  by (simp add: operate_def run_command_eq Let_def split: prod.splits sum.splits)


subsection \<open>The shape of every run of \<open>main\<close>\<close>

lemma required_all:
  "list_all (importable e) required_packages \<Longrightarrow>
   map Import (tried e required_packages) = [Import ''build'', Import ''twine'']"
  by (simp add: tried_def required_packages_def)

lemma main_shape:
  "run_shape e d (fst (run e d ls)) (actions (trace (snd (run e d ls))))"
proof (cases "path_exists d ''pyproject.toml''")
  case False
  then have "run e d ls =
      (SysExit 1,
       print ''Error: pyproject.toml not found. Run this script from the project root.''
         (print (replicate 40 CHR ''='') (print ''PyFrame Publishing Script'' (initial d ls))))"
    by (simp add: run_def main_def Let_def)
  with False show ?thesis
    by (simp add: run_shape.shape_no_marker)
next
  case marker: True
  let ?w0 = "print (replicate 40 CHR ''='') (print ''PyFrame Publishing Script'' (initial d ls))"
  from check_requirements_cases [of e ?w0] obtain w1 where
    cr: "check_requirements e ?w0 = (list_all (importable e) required_packages, w1)"
    and a1: "actions (trace w1) = map Import (tried e required_packages)"
    by auto
  show ?thesis
  proof (cases "list_all (importable e) required_packages")
    case False
    with marker cr have "run e d ls =
        (SysExit 1, print (CHR 0x0A # ''Please install required packages and try again.'') w1)"
      by (simp add: run_def main_def Let_def)
    with marker False a1 show ?thesis
      by (simp add: run_shape.shape_no_tools)
  next
    case tools: True
    note a1' = a1 [unfolded required_all [OF tools]]
    let ?w2 = "print ''4. Clean build artifacts''
      (print ''3. Build and upload to PyPI (production)''
        (print ''2. Build and upload to Test PyPI''
          (print ''1. Build package only''
            (print (CHR 0x0A # ''What would you like to do?'') w1))))"
    from input_cases [of menu_prompt ?w2] show ?thesis
    proof (elim disjE exE conjE)
      fix w3 assume inp: "input menu_prompt ?w2 = (Inl EOFError, w3)"
        and t3: "trace w3 = trace ?w2 @ [Input menu_prompt None]"
      from marker tools cr inp have "run e d ls = (Uncaught EOFError, w3)"
        by (simp add: run_def main_def Let_def)
      with marker tools a1' t3 show ?thesis
        by (simp add: run_shape.shape_menu_eof)
    next
      fix l w3 assume inp: "input menu_prompt ?w2 = (Inr l, w3)"
        and t3: "trace w3 = trace ?w2 @ [Input menu_prompt (Some l)]"
      from a1' t3 have a3: "actions (trace w3) = preamble l"
        by (simp add: preamble_def)
      note pre = marker tools cr inp
      consider (four) "strip l = ''4''"
        | (invalid) "strip l \<notin> set [''1'', ''2'', ''3'', ''4'']"
        | (build) "strip l \<in> set [''1'', ''2'', ''3'']"
        by auto
      then show ?thesis
      proof cases
        case four
        from clean_build_cases [of w3] show ?thesis
        proof (elim disjE exE conjE)
          fix p w4 rs assume cl: "clean_build w3 = (Inl (NotADirectoryError p), w4)"
            and a4: "actions (trace w4) = actions (trace w3) @ cleaning rs"
          from pre four cl have "run e d ls = (Uncaught (NotADirectoryError p), w4)"
            by (simp add: run_def main_def Let_def)
          with marker tools four a3 a4 show ?thesis
            by (simp add: run_shape.shape_clean_raised)
        next
          fix w4 rs assume cl: "clean_build w3 = (Inr (), w4)"
            and a4: "actions (trace w4) = actions (trace w3) @ cleaning rs"
          from pre four cl have "run e d ls = (Returned, print ''Build artifacts cleaned!'' w4)"
            by (simp add: run_def main_def Let_def)
          with marker tools four a3 a4 show ?thesis
            by (simp add: run_shape.shape_clean_only)
        qed
      next
        case invalid
        with pre have "run e d ls = (SysExit 1, print ''Invalid choice. Exiting.'' w3)"
          by (simp add: run_def main_def Let_def)
        with marker tools invalid a3 show ?thesis
          by (simp add: run_shape.shape_invalid)
      next
        case build
        then have not4: "strip l \<noteq> ''4''" by auto
        from build have in4: "strip l \<in> set [''1'', ''2'', ''3'', ''4'']" by auto
        from clean_build_cases [of w3] show ?thesis
        proof (elim disjE exE conjE)
          fix p w4 rs assume cl: "clean_build w3 = (Inl (NotADirectoryError p), w4)"
            and a4: "actions (trace w4) = actions (trace w3) @ cleaning rs"
          from pre build not4 cl have "run e d ls = (Uncaught (NotADirectoryError p), w4)"
            by (simp add: run_def main_def Let_def)
          with a3 a4 run_shape.shape_clean_raised [OF marker tools in4, of p rs]
          show ?thesis by simp
        next
          fix w4 rs assume cl: "clean_build w3 = (Inr (), w4)"
            and a4: "actions (trace w4) = actions (trace w3) @ cleaning rs"
          from operate_cases [of Build "''Building package...''" e "build_cmd e" w4]
          show ?thesis
          proof (elim disjE exE conjE)
            fix x w5 assume bp: "operate Build ''Building package...'' e (build_cmd e) w4 = (Inl x, w5)"
              and a5: "actions (trace w5) = actions (trace w4) @ [Call Build, Spawn (build_cmd e) None]"
            from pre build not4 cl bp have "run e d ls = (Uncaught x, w5)"
              by (simp add: run_def main_def Let_def build_package_def)
            with a3 a4 a5 run_shape.shape_build_raised [OF marker tools build, of x rs]
            show ?thesis by simp
          next
            fix built w5
            assume bp: "operate Build ''Building package...'' e (build_cmd e) w4 = (Inr built, w5)"
              and a5: "actions (trace w5) =
                actions (trace w4) @ [Call Build, Spawn (build_cmd e) None, Ret Build built]"
            show ?thesis
            proof (cases built)
              case False
              with pre build not4 cl bp have "run e d ls = (SysExit 1, print ''Build failed!'' w5)"
                by (simp add: run_def main_def Let_def build_package_def)
              with False a3 a4 a5 run_shape.shape_build_failed [OF marker tools build, of rs]
              show ?thesis by simp
            next
              case built: True
              from operate_cases [of Check "''Checking package...''" e "check_cmd e" w5]
              show ?thesis
              proof (elim disjE exE conjE)
                fix x w6
                assume cp: "operate Check ''Checking package...'' e (check_cmd e) w5 = (Inl x, w6)"
                  and a6: "actions (trace w6) =
                    actions (trace w5) @ [Call Check, Spawn (check_cmd e) None]"
                from pre build not4 cl bp built cp have "run e d ls = (Uncaught x, w6)"
                  by (simp add: run_def main_def Let_def build_package_def check_package_def)
                with built a3 a4 a5 a6 run_shape.shape_check_raised [OF marker tools build, of x rs]
                show ?thesis by simp
              next
                fix checked w6
                assume cp: "operate Check ''Checking package...'' e (check_cmd e) w5 = (Inr checked, w6)"
                  and a6: "actions (trace w6) =
                    actions (trace w5) @ [Call Check, Spawn (check_cmd e) None, Ret Check checked]"
                show ?thesis
                proof (cases checked)
                  case False
                  with pre build not4 cl bp built cp
                  have "run e d ls = (SysExit 1, print ''Package check failed!'' w6)"
                    by (simp add: run_def main_def Let_def build_package_def check_package_def)
                  with False built a3 a4 a5 a6
                    run_shape.shape_check_failed [OF marker tools build, of rs]
                  show ?thesis by simp
                next
                  case checked: True
                  let ?w7 = "print ''Package built and checked successfully!'' w6"
                  from built checked a3 a4 a5 a6
                  have a7: "actions (trace ?w7) = built_and_checked e l rs"
                    by (simp add: built_and_checked_def)
                  note upto = pre not4 cl bp built cp checked
                  from build consider (one) "strip l = ''1''" | (two) "strip l = ''2''"
                    | (three) "strip l = ''3''"
                    by auto
                  then show ?thesis
                  proof cases
                    case one
                    with upto have "run e d ls =
                        (Returned, print ''Package is ready in the 'dist' directory.'' ?w7)"
                      by (simp add: run_def main_def Let_def build_package_def check_package_def)
                    with a7 run_shape.shape_build_only [OF marker tools one, of rs]
                    show ?thesis by simp
                  next
                    case two
                    from operate_cases [of UploadTest "''Uploading to Test PyPI...''" e
                        "upload_test_cmd e" ?w7]
                    show ?thesis
                    proof (elim disjE exE conjE)
                      fix x w8
                      assume up: "operate UploadTest ''Uploading to Test PyPI...'' e
                          (upload_test_cmd e) ?w7 = (Inl x, w8)"
                        and a8: "actions (trace w8) =
                          actions (trace ?w7) @ [Call UploadTest, Spawn (upload_test_cmd e) None]"
                      from upto two up have "run e d ls = (Uncaught x, w8)"
                        by (simp add: run_def main_def Let_def build_package_def check_package_def
                            upload_to_test_pypi_def)
                      with a7 a8 run_shape.shape_test_raised [OF marker tools two, of x rs]
                      show ?thesis by simp
                    next
                      fix ok w8
                      assume up: "operate UploadTest ''Uploading to Test PyPI...'' e
                          (upload_test_cmd e) ?w7 = (Inr ok, w8)"
                        and a8: "actions (trace w8) =
                          actions (trace ?w7) @
                          [Call UploadTest, Spawn (upload_test_cmd e) None, Ret UploadTest ok]"
                      from upto two up have "fst (run e d ls) = (if ok then Returned else SysExit 1)"
                        and "actions (trace (snd (run e d ls))) = actions (trace w8)"
                        by (simp_all add: run_def main_def Let_def build_package_def
                            check_package_def upload_to_test_pypi_def)
                      with a7 a8 run_shape.shape_test_done [OF marker tools two, of ok rs]
                      show ?thesis by simp
                    qed
                  next
                    case three
                    let ?w8 = "print ''You are about to upload to PyPI (production)!'' ?w7"
                    from input_cases [of confirm_prompt ?w8] show ?thesis
                    proof (elim disjE exE conjE)
                      fix w9 assume cf: "input confirm_prompt ?w8 = (Inl EOFError, w9)"
                        and t9: "trace w9 = trace ?w8 @ [Input confirm_prompt None]"
                      from a7 t9 have a9: "actions (trace w9) =
                          built_and_checked e l rs @ [Input confirm_prompt None]"
                        by simp
                      from upto three cf have "run e d ls = (Uncaught EOFError, w9)"
                        by (simp add: run_def main_def Let_def build_package_def check_package_def)
                      with a9 run_shape.shape_confirm_eof [OF marker tools three, of rs]
                      show ?thesis by simp
                    next
                      fix c w9 assume cf: "input confirm_prompt ?w8 = (Inr c, w9)"
                        and t9: "trace w9 = trace ?w8 @ [Input confirm_prompt (Some c)]"
                      from a7 t9 have a9: "actions (trace w9) =
                          built_and_checked e l rs @ [Input confirm_prompt (Some c)]"
                        by simp
                      show ?thesis
                      proof (cases "lower (strip c) = ''y''")
                        case False
                        with upto three cf
                        have "run e d ls = (SysExit 1, print ''Upload cancelled.'' w9)"
                          by (simp add: run_def main_def Let_def build_package_def
                              check_package_def)
                        with a9 run_shape.shape_declined [OF marker tools three False, of rs]
                        show ?thesis by simp
                      next
                        case yes: True
                        from operate_cases [of UploadProd "''Uploading to PyPI...''" e
                            "upload_cmd e" w9]
                        show ?thesis
                        proof (elim disjE exE conjE)
                          fix x w10
                          assume up: "operate UploadProd ''Uploading to PyPI...'' e
                              (upload_cmd e) w9 = (Inl x, w10)"
                            and a10: "actions (trace w10) =
                              actions (trace w9) @ [Call UploadProd, Spawn (upload_cmd e) None]"
                          from upto three cf yes up have "run e d ls = (Uncaught x, w10)"
                            by (simp add: run_def main_def Let_def build_package_def
                                check_package_def upload_to_pypi_def)
                          with a9 a10
                            run_shape.shape_prod_raised [OF marker tools three yes, of x rs]
                          show ?thesis by simp
                        next
                          fix ok w10
                          assume up: "operate UploadProd ''Uploading to PyPI...'' e
                              (upload_cmd e) w9 = (Inr ok, w10)"
                            and a10: "actions (trace w10) =
                              actions (trace w9) @
                              [Call UploadProd, Spawn (upload_cmd e) None, Ret UploadProd ok]"
                          from upto three cf yes up
                          have "fst (run e d ls) = (if ok then Returned else SysExit 1)"
                            and "actions (trace (snd (run e d ls))) = actions (trace w10)"
                            by (simp_all add: run_def main_def Let_def build_package_def
                                check_package_def upload_to_pypi_def)
                          with a9 a10
                            run_shape.shape_prod_done [OF marker tools three yes, of ok rs]
                          show ?thesis by simp
                        qed
                      qed
                    qed
                  qed
                qed
              qed
            qed
          qed
        qed
      qed
    qed
  qed
qed


subsection \<open>Reading a trace\<close>

lemma in_actions: "ev \<in> set (actions t) \<longleftrightarrow> ev \<in> set t \<and> \<not> is_print ev"
  by (simp add: actions_def)

lemma calls_append [simp]: "calls (s @ t) = calls s @ calls t"
  by (induction s rule: calls.induct) simp_all

lemma spawns_append [simp]: "spawns (s @ t) = spawns s @ spawns t"
  by (induction s rule: spawns.induct) simp_all

lemma rmtrees_append [simp]: "rmtrees (s @ t) = rmtrees s @ rmtrees t"
  by (induction s rule: rmtrees.induct) simp_all

lemma calls_actions: "calls (actions t) = calls t"
  by (induction t rule: calls.induct) simp_all

lemma spawns_actions: "spawns (actions t) = spawns t"
  by (induction t rule: spawns.induct) simp_all


lemma set_calls: "opn \<in> set (calls t) \<longleftrightarrow> Call opn \<in> set t"
  by (induction t rule: calls.induct) auto

lemma projections_map [simp]:
  "calls (map Rmtree rs) = []" "spawns (map Rmtree rs) = []" "rmtrees (map Rmtree rs) = rs"
  "calls (map Import ps) = []" "spawns (map Import ps) = []" "rmtrees (map Import ps) = []"
  by (induction rs, simp_all, induction rs, simp_all, induction rs, simp_all,
      induction ps, simp_all, induction ps, simp_all, induction ps, simp_all)

lemma prompts_differ [simp]: "menu_prompt \<noteq> confirm_prompt" "confirm_prompt \<noteq> menu_prompt"
  by (simp_all add: menu_prompt_def confirm_prompt_def)



lemmas shape_defs = preamble_def cleaning_def built_and_checked_def


lemma shape_build_failure:
  "run_shape e d r a \<Longrightarrow> Ret Build False \<in> set a \<Longrightarrow>
   r = SysExit 1 \<and> calls a = [Clean, Build] \<and> spawns a = [build_cmd e] \<and>
   last a = Ret Build False"
  by (induction rule: run_shape.induct) (auto simp: shape_defs)

lemma shape_confirmation:
  "run_shape e d r a \<Longrightarrow> Input confirm_prompt (Some c) \<in> set a \<Longrightarrow>
   (Call UploadProd \<in> set a) = (lower (strip c) = ''y'') \<and>
   (lower (strip c) = ''y'' \<longrightarrow>
      calls a = [Clean, Build, Check, UploadProd] \<and>
      spawns a = [build_cmd e, check_cmd e, upload_cmd e]) \<and>
   (lower (strip c) \<noteq> ''y'' \<longrightarrow>
      r = SysExit 1 \<and> calls a = [Clean, Build, Check] \<and>
      spawns a = [build_cmd e, check_cmd e]) \<and>
   (\<exists>l. Input menu_prompt (Some l) \<in> set a \<and> strip l = ''3'')"
  by (induction rule: run_shape.induct) (auto simp: shape_defs)




subsection \<open>Evaluating sample runs\<close>

lemma strip_examples:
  "strip ''1'' = ''1''" "strip ''2'' = ''2''" "strip ''3'' = ''3''" "strip ''4'' = ''4''"
  "strip '' 1 '' = ''1''" "strip ''5'' = ''5''" "strip [] = []"
  by code_simp+

lemma confirm_examples:
  "lower (strip ''y'') = ''y''" "lower (strip ''Y '') = ''y''"
  "lower (strip ''n'') = ''n''" "lower (strip ''N'') = ''n''"
  "lower (strip []) = []" "lower (strip ''yes'') = ''yes''"
  by code_simp+

lemmas eval_simps = run_def main_def Let_def sample_env_def sample_env_failing_def
  sample_env_unlaunchable_def initial_def check_requirements_eq
  required_packages_def tried_def status_lines_def path_exists_def input_def
  menu_prompt_def confirm_prompt_def strip_examples confirm_examples
  clean_build_def dirs_to_clean_def clean_patterns.simps(2) isdir_def glob_def glob_match_def
  is_hidden_def build_package_def check_package_def upload_to_pypi_def upload_to_test_pypi_def
  operate_def run_command_eq build_cmd_def check_cmd_def upload_cmd_def upload_test_cmd_def
  print_def log_def rmtree_def sample_project_def

subsection \<open>The claims about \<open>main\<close>\<close>

text \<open>
  C3: when \<open>pyproject.toml\<close> is not in the working directory, the run prints the banner
  and the error and exits with status 1. Nothing else has happened by then: no module is
  imported, no subprocess is spawned, no path is removed, no input is read, and the
  working directory is as it was.
\<close>

theorem missing_marker_exits_before_anything:
  assumes "\<not> path_exists d ''pyproject.toml''"
  shows "run e d ls =
      (SysExit 1,
       \<lparr>fs = d, stdin = ls,
        trace = [Print ''PyFrame Publishing Script'', Print (replicate 40 CHR ''=''),
          Print ''Error: pyproject.toml not found. Run this script from the project root.'']\<rparr>) \<and>
    exit_code (fst (run e d ls)) \<noteq> 0 \<and>
    spawns (trace (snd (run e d ls))) = [] \<and>
    rmtrees (trace (snd (run e d ls))) = [] \<and>
    calls (trace (snd (run e d ls))) = [] \<and>
    actions (trace (snd (run e d ls))) = []"
  using assms by (simp add: run_def main_def Let_def initial_def print_def log_def)

theorem missing_marker_exits_before_anything_witness:
  "\<not> path_exists [(''README.md'', File), (''build'', Dir [])] ''pyproject.toml'' \<and>
   run sample_env [(''README.md'', File), (''build'', Dir [])] [''1''] =
     (SysExit 1,
      \<lparr>fs = [(''README.md'', File), (''build'', Dir [])], stdin = [''1''],
       trace = [Print ''PyFrame Publishing Script'', Print (replicate 40 CHR ''=''),
         Print ''Error: pyproject.toml not found. Run this script from the project root.'']\<rparr>) \<and>
   spawns (trace (snd (run sample_env [(''README.md'', File), (''build'', Dir [])] [''1'']))) = [] \<and>
   rmtrees (trace (snd (run sample_env [(''README.md'', File), (''build'', Dir [])] [''1'']))) = []"
  using missing_marker_exits_before_anything
    [of "[(''README.md'', File), (''build'', Dir [])]" sample_env "[''1'']"]
  by (simp add: path_exists_def)

text \<open>
  C2: in every run in which \<open>build_package\<close> returns \<open>False\<close>, the operations entered are
  cleaning and building only, so the package check and both uploads are never entered;
  the one subprocess spawned is the build; the run exits with status 1, and the return of
  the build is the last thing it does besides printing.
\<close>

theorem build_failure_stops_pipeline:
  assumes "Ret Build False \<in> set (trace (snd (run e d ls)))"
  shows "fst (run e d ls) = SysExit 1 \<and>
    exit_code (fst (run e d ls)) \<noteq> 0 \<and>
    calls (trace (snd (run e d ls))) = [Clean, Build] \<and>
    Call Check \<notin> set (trace (snd (run e d ls))) \<and>
    Call UploadTest \<notin> set (trace (snd (run e d ls))) \<and>
    Call UploadProd \<notin> set (trace (snd (run e d ls))) \<and>
    spawns (trace (snd (run e d ls))) = [build_cmd e] \<and>
    last (actions (trace (snd (run e d ls)))) = Ret Build False"
proof -
  let ?t = "trace (snd (run e d ls))"
  from assms have "Ret Build False \<in> set (actions ?t)"
    by (simp add: in_actions)
  from shape_build_failure [OF main_shape this]
  have *: "fst (run e d ls) = SysExit 1" "calls ?t = [Clean, Build]"
    "spawns ?t = [build_cmd e]" "last (actions ?t) = Ret Build False"
    by (simp_all add: calls_actions spawns_actions)
  from *(2) have "Call Check \<notin> set ?t" "Call UploadTest \<notin> set ?t" "Call UploadProd \<notin> set ?t"
    by (simp_all add: set_calls [symmetric])
  with * show ?thesis by simp
qed

theorem build_failure_stops_pipeline_witness:
  "Ret Build False \<in>
     set (trace (snd (run (sample_env_failing (build_cmd sample_env)) sample_project [''2'']))) \<and>
   fst (run (sample_env_failing (build_cmd sample_env)) sample_project [''2'']) = SysExit 1 \<and>
   calls (trace (snd (run (sample_env_failing (build_cmd sample_env)) sample_project [''2''])))
     = [Clean, Build] \<and>
   spawns (trace (snd (run (sample_env_failing (build_cmd sample_env)) sample_project [''2''])))
     = [[''python3'', ''-m'', ''build'']]"
  using build_failure_stops_pipeline
    [of "sample_env_failing (build_cmd sample_env)" sample_project "[''2'']"]
  by (simp add: eval_simps)


text \<open>
  C1: in every run that reads an answer \<open>c\<close> at the confirmation prompt (which only
  choice 3 reaches), \<open>upload_to_pypi\<close> is entered exactly when \<open>c\<close>, stripped and
  lower-cased, is \<open>y\<close>. With any other answer the run exits with status 1 having entered
  no upload and spawned only the build and the check.
\<close>

theorem production_upload_needs_y:
  assumes "Input confirm_prompt (Some c) \<in> set (trace (snd (run e d ls)))"
  shows "(Call UploadProd \<in> set (trace (snd (run e d ls)))) = (lower (strip c) = ''y'') \<and>
    (lower (strip c) = ''y'' \<longrightarrow>
       calls (trace (snd (run e d ls))) = [Clean, Build, Check, UploadProd] \<and>
       spawns (trace (snd (run e d ls))) = [build_cmd e, check_cmd e, upload_cmd e]) \<and>
    (lower (strip c) \<noteq> ''y'' \<longrightarrow>
       fst (run e d ls) = SysExit 1 \<and>
       exit_code (fst (run e d ls)) \<noteq> 0 \<and>
       calls (trace (snd (run e d ls))) = [Clean, Build, Check] \<and>
       spawns (trace (snd (run e d ls))) = [build_cmd e, check_cmd e]) \<and>
    (\<exists>l. Input menu_prompt (Some l) \<in> set (trace (snd (run e d ls))) \<and> strip l = ''3'')"
proof -
  let ?t = "trace (snd (run e d ls))"
  from assms have "Input confirm_prompt (Some c) \<in> set (actions ?t)"
    by (simp add: in_actions)
  from shape_confirmation [OF main_shape this] show ?thesis
    by (auto simp: in_actions calls_actions spawns_actions)
qed

theorem production_upload_needs_y_witness:
  "Input confirm_prompt (Some ''Y '') \<in>
     set (trace (snd (run sample_env sample_project [''3'', ''Y '']))) \<and>
   lower (strip ''Y '') = ''y'' \<and>
   Call UploadProd \<in> set (trace (snd (run sample_env sample_project [''3'', ''Y '']))) \<and>
   Input confirm_prompt (Some ''yes'') \<in>
     set (trace (snd (run sample_env sample_project [''3'', ''yes'']))) \<and>
   lower (strip ''yes'') \<noteq> ''y'' \<and> lower (strip ''n'') \<noteq> ''y'' \<and> lower (strip []) \<noteq> ''y'' \<and>
   Call UploadProd \<notin> set (trace (snd (run sample_env sample_project [''3'', ''yes'']))) \<and>
   fst (run sample_env sample_project [''3'', ''yes'']) = SysExit 1"
proof -
  have 1: "Input confirm_prompt (Some ''Y '') \<in>
     set (trace (snd (run sample_env sample_project [''3'', ''Y ''])))"
    by (simp add: eval_simps)
  have 2: "Input confirm_prompt (Some ''yes'') \<in>
     set (trace (snd (run sample_env sample_project [''3'', ''yes''])))"
    by (simp add: eval_simps)
  from production_upload_needs_y [OF 1] production_upload_needs_y [OF 2] 1 2
  show ?thesis
    by (simp add: confirm_examples)
qed







end
